theory Spec2Isabelle
  imports Main
begin

section \<open>The feed resource of the Azure DevOps provider\<close>

text \<open>
  A shallow embedding of \<^verbatim>\<open>azuredevops/internal/service/feed/resource_feed.go\<close>.
  The handlers \<^verbatim>\<open>resourceFeedCreate\<close>, \<^verbatim>\<open>resourceFeedRead\<close>, \<^verbatim>\<open>resourceFeedUpdate\<close> and
  \<^verbatim>\<open>resourceFeedDelete\<close> mutate a \<^verbatim>\<open>*schema.ResourceData\<close> and talk to the remote feed
  client. Both effects are made explicit: a handler takes the resource data together
  with the list of remote calls issued so far and returns them updated. A Go panic
  (failed type assertion, nil dereference) is an outcome of its own.
\<close>

subsection \<open>Values of the Go runtime\<close>

text \<open>
  A value of type \<^verbatim>\<open>interface{}\<close>, as far as this file meets one: the elements of the
  \<^verbatim>\<open>features\<close> list, the entries of a feature block and the \<^verbatim>\<open>Value\<close> of a patch operation.
\<close>

datatype iface =
    INil
  | IBool bool
  | IString string
  | IMap "string \<Rightarrow> iface option"

text \<open>
  A Go \<^verbatim>\<open>error\<close>. \<open>RemoteError code msg\<close> is an error handed back by the remote layer,
  \<open>msg\<close> being what its \<^verbatim>\<open>Error()\<close> method prints; \<open>Errorf msg\<close> is the fresh error built by
  \<^verbatim>\<open>fmt.Errorf\<close> with the formatted text \<open>msg\<close>. A nil error is \<open>None :: error option\<close>.
\<close>

datatype error =
    RemoteError nat string
  | Errorf string

fun Error :: "error \<Rightarrow> string" where
  "Error (RemoteError code msg) = msg"
| "Error (Errorf msg) = msg"

text \<open>A \<^verbatim>\<open>uuid.UUID\<close>, identified by the text its \<^verbatim>\<open>String()\<close> method returns.\<close>

datatype uuid = UUID string

fun uuid_String :: "uuid \<Rightarrow> string" where
  "uuid_String (UUID s) = s"

subsection \<open>Structures of the remote API\<close>

text \<open>
  Pointer-typed fields are options, \<open>None\<close> being nil. Of \<^verbatim>\<open>feed.Feed\<close> only the
  fields this file reads or writes are kept.
\<close>

record ProjectReference =
  ProjectReference_Id :: "uuid option"

record Feed =
  Feed_Id :: "uuid option"
  Feed_Name :: "string option"
  Feed_Project :: "ProjectReference option"

text \<open>
  \<^verbatim>\<open>feed.FeedUpdate\<close>: the file only ever builds the literal \<^verbatim>\<open>feed.FeedUpdate{}\<close>, so the
  structure is represented by the list of the fields that were given a value.
\<close>

record FeedUpdate =
  FeedUpdate_fields :: "(string \<times> iface) list"

type_synonym ChangeType = string

record FeedChange =
  ChangeType :: "ChangeType option"

text \<open>The constant \<^verbatim>\<open>feed.ChangeTypeValues.Delete\<close> of the API package.\<close>

definition ChangeTypeValues_Delete :: ChangeType where
  "ChangeTypeValues_Delete = ''delete''"

text \<open>\<^verbatim>\<open>webapi.Operation\<close> with the members of \<^verbatim>\<open>webapi.OperationValues\<close>.\<close>

datatype Operation = Add | Remove | Replace | Move | Copy | Test

record JsonPatchOperation =
  From :: "string option"
  Op :: "Operation option"
  Path :: "string option"
  Value :: iface

text \<open>
  The argument structures. \<^verbatim>\<open>GetFeedArgs\<close>, \<^verbatim>\<open>DeleteFeedArgs\<close>, \<^verbatim>\<open>PermanentDeleteFeedArgs\<close>
  and \<^verbatim>\<open>GetFeedChangeArgs\<close> all consist of \<^verbatim>\<open>FeedId\<close> and \<^verbatim>\<open>Project\<close>;
  \<^verbatim>\<open>UpdateFeedArgs\<close> and \<^verbatim>\<open>RestoreDeletedFeedArgs\<close> add one field each.
\<close>

record FeedArgs =
  FeedId :: "string option"
  Project :: "string option"

type_synonym GetFeedArgs = FeedArgs
type_synonym DeleteFeedArgs = FeedArgs
type_synonym PermanentDeleteFeedArgs = FeedArgs
type_synonym GetFeedChangeArgs = FeedArgs

record UpdateFeedArgs = FeedArgs +
  Feed :: "FeedUpdate option"

record RestoreDeletedFeedArgs = FeedArgs +
  PatchJson :: "JsonPatchOperation list option"

record CreateFeedArgs =
  CreateFeedArgs_Feed :: "Feed option"
  CreateFeedArgs_Project :: "string option"

text \<open>One remote call, as the trace records it.\<close>

datatype call =
    CreateFeed_call CreateFeedArgs
  | GetFeed_call GetFeedArgs
  | UpdateFeed_call UpdateFeedArgs
  | DeleteFeed_call DeleteFeedArgs
  | PermanentDeleteFeed_call PermanentDeleteFeedArgs
  | GetFeedChange_call GetFeedChangeArgs
  | RestoreDeletedFeed_call RestoreDeletedFeedArgs

subsection \<open>The collaborators\<close>

text \<open>
  The remote side and the not-found test, which live outside the file, are parameters:
  \<^item> the seven operations of \<^verbatim>\<open>clients.FeedClient\<close>; each answer may depend on the calls
    issued before it (first argument), so the remote side may be stateful;
  \<^item> \<^verbatim>\<open>utils.ResponseWasNotFound\<close>.
\<close>

record env =
  CreateFeed :: "call list \<Rightarrow> CreateFeedArgs \<Rightarrow> Feed option \<times> error option"
  GetFeed :: "call list \<Rightarrow> GetFeedArgs \<Rightarrow> Feed option \<times> error option"
  UpdateFeed :: "call list \<Rightarrow> UpdateFeedArgs \<Rightarrow> Feed option \<times> error option"
  DeleteFeed :: "call list \<Rightarrow> DeleteFeedArgs \<Rightarrow> error option"
  PermanentDeleteFeed :: "call list \<Rightarrow> PermanentDeleteFeedArgs \<Rightarrow> error option"
  GetFeedChange :: "call list \<Rightarrow> GetFeedChangeArgs \<Rightarrow> FeedChange option \<times> error option"
  RestoreDeletedFeed :: "call list \<Rightarrow> RestoreDeletedFeedArgs \<Rightarrow> error option"
  ResponseWasNotFound :: "error \<Rightarrow> bool"

text \<open>
  Modelled from the spec: \<^verbatim>\<open>converter.String\<close> (package \<^verbatim>\<open>utils/converter\<close>) is not part
  of the file. The spec has the requests built with it addressed by
  \<^verbatim>\<open>{feedId: name, scopeId}\<close>, so it yields a pointer to its argument.
\<close>

definition converter_String :: "string \<Rightarrow> string option" where
  "converter_String v = Some v"

subsection \<open>The resource data\<close>

text \<open>
  \<^verbatim>\<open>schema.ResourceData\<close> for the schema of \<^verbatim>\<open>ResourceFeed\<close>: the identifier and the three
  attributes. \<^verbatim>\<open>d.Get("name").(string)\<close> is \<open>d_name\<close>, and so on; \<^verbatim>\<open>d.Get("features")\<close> is a
  slice of \<^verbatim>\<open>interface{}\<close>.
\<close>

record ResourceData =
  d_Id :: string
  d_name :: string
  d_project_id :: string
  d_features :: "iface list"

definition SetId :: "string \<Rightarrow> ResourceData \<Rightarrow> ResourceData" where
  "SetId v d = d\<lparr>d_Id := v\<rparr>"

text \<open>
  \<^verbatim>\<open>d.Set("name", p)\<close> for a \<^verbatim>\<open>*string\<close> \<open>p\<close>. The setter of the plugin SDK stores what a
  non-nil pointer points to; a nil pointer is stored as nil, after which the attribute
  reads as the empty string.
\<close>

definition Set_name :: "string option \<Rightarrow> ResourceData \<Rightarrow> ResourceData" where
  "Set_name p d =
     (case p of
        Some v \<Rightarrow> d\<lparr>d_name := v\<rparr>
      | None \<Rightarrow> d\<lparr>d_name := ''''\<rparr>)"

text \<open>\<^verbatim>\<open>d.Set("project_id", v)\<close> for a string \<open>v\<close>.\<close>

definition Set_project_id :: "string \<Rightarrow> ResourceData \<Rightarrow> ResourceData" where
  "Set_project_id v d = d\<lparr>d_project_id := v\<rparr>"

text \<open>The state a handler works on: the resource data and the remote calls so far.\<close>

record world =
  rd :: ResourceData
  calls :: "call list"

text \<open>A handler either panics or returns a value; both leave a world behind.\<close>

datatype 'a outcome =
    Panic world
  | Return 'a world

fun world_of :: "'a outcome \<Rightarrow> world" where
  "world_of (Panic w) = w"
| "world_of (Return v w) = w"

fun is_Panic :: "'a outcome \<Rightarrow> bool" where
  "is_Panic (Panic w) = True"
| "is_Panic (Return v w) = False"

subsection \<open>The handlers\<close>

text \<open>
  \<^verbatim>\<open>feedFeatures\<close>: the first element of the \<^verbatim>\<open>features\<close> list asserted to be a map, or
  the empty map when the list is empty. \<open>None\<close> is the panic of the type assertion
  \<^verbatim>\<open>features[0].(map[string]interface{})\<close>.
\<close>

definition feedFeatures :: "ResourceData \<Rightarrow> (string \<Rightarrow> iface option) option" where
  "feedFeatures d =
     (case d_features d of
        [] \<Rightarrow> Some (\<lambda>k. None)
      | f # fs \<Rightarrow> (case f of IMap fm \<Rightarrow> Some fm | _ \<Rightarrow> None))"

definition isFeedRestorable :: "env \<Rightarrow> world \<Rightarrow> bool outcome" where
  "isFeedRestorable m w =
     (let args = \<lparr>FeedId = converter_String (d_name (rd w)),
                  Project = converter_String (d_project_id (rd w))\<rparr>;
          (change, err) = GetFeedChange m (calls w) args;
          w1 = w\<lparr>calls := calls w @ [GetFeedChange_call args]\<rparr>
      in case err of
           Some e \<Rightarrow> Return False w1
         | None \<Rightarrow>
             (case change of
                None \<Rightarrow> Panic w1
              | Some ch \<Rightarrow>
                  (case ChangeType ch of
                     None \<Rightarrow> Panic w1
                   | Some ct \<Rightarrow> Return (ct = ChangeTypeValues_Delete) w1)))"

definition restoreFeed :: "env \<Rightarrow> world \<Rightarrow> error option outcome" where
  "restoreFeed m w =
     (let args = \<lparr>FeedId = converter_String (d_name (rd w)),
                  Project = converter_String (d_project_id (rd w)),
                  PatchJson = Some [\<lparr>From = None,
                                     Op = Some Replace,
                                     Path = converter_String ''/isDeleted'',
                                     Value = IBool False\<rparr>]\<rparr>;
          err = RestoreDeletedFeed m (calls w) args;
          w1 = w\<lparr>calls := calls w @ [RestoreDeletedFeed_call args]\<rparr>
      in case err of
           Some e \<Rightarrow> Return (Some e) w1
         | None \<Rightarrow> Return None w1)"

definition resourceFeedRead :: "env \<Rightarrow> world \<Rightarrow> error option outcome" where
  "resourceFeedRead m w =
     (let name = d_name (rd w);
          projectId = d_project_id (rd w);
          args = \<lparr>FeedId = Some name, Project = Some projectId\<rparr>;
          (getFeed, err) = GetFeed m (calls w) args;
          w1 = w\<lparr>calls := calls w @ [GetFeed_call args]\<rparr>
      in case err of
           Some e \<Rightarrow>
             (if ResponseWasNotFound m e
              then Return None (w1\<lparr>rd := SetId '''' (rd w1)\<rparr>)
              else Return (Some (Errorf ('' reading feed during read: '' @ Error e))) w1)
         | None \<Rightarrow>
             (case getFeed of
                None \<Rightarrow> Return None w1
              | Some f \<Rightarrow>
                  (case Feed_Id f of
                     None \<Rightarrow> Panic w1
                   | Some u \<Rightarrow>
                       (let w2 = w1\<lparr>rd := Set_name (Feed_Name f)
                                             (SetId (uuid_String u) (rd w1))\<rparr>
                        in (case Feed_Project f of
                              None \<Rightarrow> Return None w2
                            | Some p \<Rightarrow>
                                (case ProjectReference_Id p of
                                   None \<Rightarrow> Panic w2
                                 | Some pu \<Rightarrow>
                                     Return None
                                       (w2\<lparr>rd := Set_project_id (uuid_String pu)
                                                     (rd w2)\<rparr>)))))))"

text \<open>
  \<^verbatim>\<open>resourceFeedCreate\<close>. \<open>cond\<close> is the guard of lines 63--64: the key \<^verbatim>\<open>restore\<close> is
  looked up, its value asserted to be a bool (a panic otherwise), and
  \<^verbatim>\<open>isFeedRestorable\<close> is only evaluated when that bool is true.
\<close>

definition resourceFeedCreate :: "env \<Rightarrow> world \<Rightarrow> error option outcome" where
  "resourceFeedCreate m w =
     (let name = d_name (rd w);
          projectId = d_project_id (rd w)
      in case feedFeatures (rd w) of
           None \<Rightarrow> Panic w
         | Some features \<Rightarrow>
             (let cond =
                    (case features ''restore'' of
                       None \<Rightarrow> Return False w
                     | Some v \<Rightarrow>
                         (case v of
                            IBool restore \<Rightarrow>
                              (if restore then isFeedRestorable m w else Return False w)
                          | _ \<Rightarrow> Panic w))
              in case cond of
                  Panic w1 \<Rightarrow> Panic w1
                | Return True w1 \<Rightarrow>
                    (case restoreFeed m w1 of
                       Panic w2 \<Rightarrow> Panic w2
                     | Return (Some err) w2 \<Rightarrow>
                         Return (Some (Errorf (''restoring feed. Name: '' @ name
                                                @ '', Error: '' @ Error err))) w2
                     | Return None w2 \<Rightarrow> resourceFeedRead m w2)
                | Return False w1 \<Rightarrow>
                    (let args = \<lparr>CreateFeedArgs_Feed =
                                    Some \<lparr>Feed_Id = None, Feed_Name = Some name,
                                          Feed_Project = None\<rparr>,
                                  CreateFeedArgs_Project = Some projectId\<rparr>;
                         (created, err) = CreateFeed m (calls w1) args;
                         w2 = w1\<lparr>calls := calls w1 @ [CreateFeed_call args]\<rparr>
                     in case err of
                          Some e \<Rightarrow>
                            Return (Some (Errorf (''creating new feed. Name: '' @ name
                                                   @ '', Error: '' @ Error e))) w2
                        | None \<Rightarrow> resourceFeedRead m w2)))"

definition resourceFeedUpdate :: "env \<Rightarrow> world \<Rightarrow> error option outcome" where
  "resourceFeedUpdate m w =
     (let name = d_name (rd w);
          projectId = d_project_id (rd w);
          args = \<lparr>FeedId = Some name, Project = Some projectId,
                  Feed = Some \<lparr>FeedUpdate_fields = []\<rparr>\<rparr>;
          (updated, err) = UpdateFeed m (calls w) args;
          w1 = w\<lparr>calls := calls w @ [UpdateFeed_call args]\<rparr>
      in case err of
           Some e \<Rightarrow> Return (Some e) w1
         | None \<Rightarrow> resourceFeedRead m w1)"

definition resourceFeedDelete :: "env \<Rightarrow> world \<Rightarrow> error option outcome" where
  "resourceFeedDelete m w =
     (let name = d_name (rd w);
          projectId = d_project_id (rd w)
      in case feedFeatures (rd w) of
           None \<Rightarrow> Panic w
         | Some features \<Rightarrow>
             (let args = \<lparr>FeedId = Some name, Project = Some projectId\<rparr>;
                  err = DeleteFeed m (calls w) args;
                  w1 = w\<lparr>calls := calls w @ [DeleteFeed_call args]\<rparr>
              in case err of
                  Some e \<Rightarrow> Return (Some e) w1
                | None \<Rightarrow>
                    (let purge =
                          (case features ''permanent_delete'' of
                             None \<Rightarrow> Return None w1
                           | Some v \<Rightarrow>
                               (case v of
                                  IBool permanentDelete \<Rightarrow>
                                    (if permanentDelete
                                     then Return (PermanentDeleteFeed m (calls w1) args)
                                            (w1\<lparr>calls := calls w1
                                                   @ [PermanentDeleteFeed_call args]\<rparr>)
                                     else Return None w1)
                                | _ \<Rightarrow> Panic w1))
                     in case purge of
                         Panic w2 \<Rightarrow> Panic w2
                       | Return (Some e) w2 \<Rightarrow> Return (Some e) w2
                       | Return None w2 \<Rightarrow>
                           Return None (w2\<lparr>rd := SetId '''' (rd w2)\<rparr>))))"

subsection \<open>Concrete inputs\<close>

text \<open>
  A resource named \<^verbatim>\<open>pkgs\<close> in the scope \<open>scope_id\<close>, a feature block as the schema
  produces it (both flags present), and a remote side whose answers are fixed.
\<close>

definition scope_id :: string where
  "scope_id = ''11111111-1111-1111-1111-111111111111''"

definition feed_id :: string where
  "feed_id = ''0a1b2c3d-0000-4000-8000-000000000001''"

definition features_block :: "bool \<Rightarrow> bool \<Rightarrow> iface" where
  "features_block permanent_delete restore =
     IMap (\<lambda>k. if k = ''permanent_delete'' then Some (IBool permanent_delete)
               else if k = ''restore'' then Some (IBool restore)
               else None)"

definition pkgs_data :: "string \<Rightarrow> iface list \<Rightarrow> ResourceData" where
  "pkgs_data ident fs =
     \<lparr>d_Id = ident, d_name = ''pkgs'', d_project_id = scope_id, d_features = fs\<rparr>"

definition pkgs_world :: "string \<Rightarrow> iface list \<Rightarrow> world" where
  "pkgs_world ident fs = \<lparr>rd = pkgs_data ident fs, calls = []\<rparr>"

definition pkgs_args :: FeedArgs where
  "pkgs_args = \<lparr>FeedId = Some ''pkgs'', Project = Some scope_id\<rparr>"

definition pkgs_patch :: RestoreDeletedFeedArgs where
  "pkgs_patch =
     \<lparr>FeedId = Some ''pkgs'', Project = Some scope_id,
      PatchJson = Some [\<lparr>From = None, Op = Some Replace,
                         Path = Some ''/isDeleted'', Value = IBool False\<rparr>]\<rparr>"

definition pkgs_feed :: "ProjectReference option \<Rightarrow> Feed" where
  "pkgs_feed scope =
     \<lparr>Feed_Id = Some (UUID feed_id), Feed_Name = Some ''pkgs'', Feed_Project = scope\<rparr>"

text \<open>Two more answers of \<^verbatim>\<open>GetFeed\<close>: a feed without a name, and one renamed and moved.\<close>

definition nameless_feed :: Feed where
  "nameless_feed =
     \<lparr>Feed_Id = Some (UUID feed_id), Feed_Name = None, Feed_Project = None\<rparr>"

definition renamed_feed :: Feed where
  "renamed_feed =
     \<lparr>Feed_Id = Some (UUID feed_id), Feed_Name = Some ''packages'',
      Feed_Project = Some \<lparr>ProjectReference_Id = Some (UUID ''p-2'')\<rparr>\<rparr>"

definition deleted_change :: FeedChange where
  "deleted_change = \<lparr>ChangeType = Some ChangeTypeValues_Delete\<rparr>"

definition stub_env ::
  "Feed option \<times> error option \<Rightarrow> FeedChange option \<times> error option \<Rightarrow>
   error option \<Rightarrow> error option \<Rightarrow> error option \<Rightarrow> error option \<Rightarrow> env" where
  "stub_env got change updated deleted purged restored =
     \<lparr>CreateFeed = (\<lambda>cs a. (CreateFeedArgs_Feed a, None)),
      GetFeed = (\<lambda>cs a. got),
      UpdateFeed = (\<lambda>cs a. (None, updated)),
      DeleteFeed = (\<lambda>cs a. deleted),
      PermanentDeleteFeed = (\<lambda>cs a. purged),
      GetFeedChange = (\<lambda>cs a. change),
      RestoreDeletedFeed = (\<lambda>cs a. restored),
      ResponseWasNotFound = (\<lambda>e. case e of RemoteError code msg \<Rightarrow> code = 404
                                  | Errorf msg \<Rightarrow> False)\<rparr>"

section \<open>Properties\<close>

subsection \<open>Auxiliary facts\<close>

lemma stub_env_simps [simp]:
  "CreateFeed (stub_env got change updated deleted purged restored) cs ca
     = (CreateFeedArgs_Feed ca, None)"
  "GetFeed (stub_env got change updated deleted purged restored) cs a = got"
  "UpdateFeed (stub_env got change updated deleted purged restored) cs ua = (None, updated)"
  "DeleteFeed (stub_env got change updated deleted purged restored) cs a = deleted"
  "PermanentDeleteFeed (stub_env got change updated deleted purged restored) cs a = purged"
  "GetFeedChange (stub_env got change updated deleted purged restored) cs a = change"
  "RestoreDeletedFeed (stub_env got change updated deleted purged restored) cs ra = restored"
  "ResponseWasNotFound (stub_env got change updated deleted purged restored)
     (RemoteError code msg) = (code = 404)"
  by (simp_all add: stub_env_def)

lemma pkgs_world_simps [simp]:
  "rd (pkgs_world ident fs) = pkgs_data ident fs"
  "calls (pkgs_world ident fs) = []"
  "d_Id (pkgs_data ident fs) = ident"
  "d_name (pkgs_data ident fs) = ''pkgs''"
  "d_project_id (pkgs_data ident fs) = scope_id"
  "d_features (pkgs_data ident fs) = fs"
  by (simp_all add: pkgs_world_def pkgs_data_def)

lemma feedFeatures_block [simp]:
  "feedFeatures (pkgs_data ident (features_block p r # fs)) =
     Some (\<lambda>k. if k = ''permanent_delete'' then Some (IBool p)
               else if k = ''restore'' then Some (IBool r)
               else None)"
  by (simp add: feedFeatures_def features_block_def)

text \<open>An absent \<^verbatim>\<open>features\<close> block is the empty map: every flag is missing.\<close>

lemma feedFeatures_absent:
  "d_features d = [] \<Longrightarrow> feedFeatures d = Some (\<lambda>k. None)"
  by (simp add: feedFeatures_def)

text \<open>\<^verbatim>\<open>isFeedRestorable\<close> issues one \<^verbatim>\<open>GetFeedChange\<close> and touches nothing else.\<close>

lemma isFeedRestorable_world:
  "isFeedRestorable m w = Return b w1 \<Longrightarrow>
   w1 = w\<lparr>calls := calls w @ [GetFeedChange_call
          \<lparr>FeedId = Some (d_name (rd w)), Project = Some (d_project_id (rd w))\<rparr>]\<rparr>"
  by (auto simp: isFeedRestorable_def converter_String_def Let_def
           split: prod.splits option.splits)

text \<open>\<^verbatim>\<open>resourceFeedRead\<close> issues one \<^verbatim>\<open>GetFeed\<close>, whatever the answer.\<close>

lemma resourceFeedRead_calls:
  "calls (world_of (resourceFeedRead m w)) =
   calls w @ [GetFeed_call \<lparr>FeedId = Some (d_name (rd w)),
                            Project = Some (d_project_id (rd w))\<rparr>]"
  by (simp add: resourceFeedRead_def Let_def split: prod.splits option.splits)

text \<open>
  \<^verbatim>\<open>restoreFeed\<close> sends the fixed one-operation patch and hands back whatever the remote
  side answered.
\<close>

lemma restoreFeed_eq:
  "restoreFeed m w =
     Return (RestoreDeletedFeed m (calls w)
               \<lparr>FeedId = Some (d_name (rd w)), Project = Some (d_project_id (rd w)),
                PatchJson = Some [\<lparr>From = None, Op = Some Replace,
                                   Path = Some ''/isDeleted'', Value = IBool False\<rparr>]\<rparr>)
            (w\<lparr>calls := calls w @ [RestoreDeletedFeed_call
               \<lparr>FeedId = Some (d_name (rd w)), Project = Some (d_project_id (rd w)),
                PatchJson = Some [\<lparr>From = None, Op = Some Replace,
                                   Path = Some ''/isDeleted'', Value = IBool False\<rparr>]\<rparr>]\<rparr>)"
  by (simp add: restoreFeed_def converter_String_def Let_def split: option.splits)

text \<open>
  Where \<^verbatim>\<open>resourceFeedRead\<close> panics: a response without an identifier, or one whose
  project reference has none. A nil response with a nil error changes nothing.
\<close>

lemma resourceFeedRead_nil_id:
  "GetFeed m (calls w) \<lparr>FeedId = Some (d_name (rd w)),
                         Project = Some (d_project_id (rd w))\<rparr> = (Some f, None)
   \<Longrightarrow> Feed_Id f = None \<Longrightarrow> is_Panic (resourceFeedRead m w)"
  by (simp add: resourceFeedRead_def Let_def)

lemma resourceFeedRead_nil_project_id:
  "GetFeed m (calls w) \<lparr>FeedId = Some (d_name (rd w)),
                         Project = Some (d_project_id (rd w))\<rparr> = (Some f, None)
   \<Longrightarrow> Feed_Id f = Some u \<Longrightarrow> Feed_Project f = Some \<lparr>ProjectReference_Id = None\<rparr>
   \<Longrightarrow> is_Panic (resourceFeedRead m w)"
  by (simp add: resourceFeedRead_def Let_def)

lemma resourceFeedRead_nil_response:
  "GetFeed m (calls w) \<lparr>FeedId = Some (d_name (rd w)),
                         Project = Some (d_project_id (rd w))\<rparr> = (None, None)
   \<Longrightarrow> resourceFeedRead m w =
       Return None (w\<lparr>calls := calls w @ [GetFeed_call
          \<lparr>FeedId = Some (d_name (rd w)), Project = Some (d_project_id (rd w))\<rparr>]\<rparr>)"
  by (simp add: resourceFeedRead_def Let_def)

subsection \<open>Create\<close>

text \<open>
  Claim C1. Let the \<^verbatim>\<open>restore\<close> flag be true and let \<^verbatim>\<open>isFeedRestorable\<close> return true,
  leaving the world \<open>w'\<close> (the start plus one \<^verbatim>\<open>GetFeedChange\<close>). Then
  \<^verbatim>\<open>resourceFeedCreate\<close> sends \<^verbatim>\<open>RestoreDeletedFeed\<close> with the feed addressed by name and
  project and a patch of exactly one operation, replace \<^verbatim>\<open>/isDeleted\<close> by false. Its
  result is that of \<^verbatim>\<open>resourceFeedRead\<close> run after the restore request (when that request
  comes back with an error the handler returns at once, see C6). The calls issued are
  \<^verbatim>\<open>GetFeedChange\<close>, \<^verbatim>\<open>RestoreDeletedFeed\<close> and then the \<^verbatim>\<open>GetFeed\<close> of the read;
  \<^verbatim>\<open>CreateFeed\<close> is not among them.
\<close>

theorem create_restores_instead_of_creating:
  assumes feats: "feedFeatures (rd w) = Some features"
    and flag: "features ''restore'' = Some (IBool True)"
    and restorable: "isFeedRestorable m w = Return True w'"
  shows "w' = w\<lparr>calls := calls w @ [GetFeedChange_call
                 \<lparr>FeedId = Some (d_name (rd w)), Project = Some (d_project_id (rd w))\<rparr>]\<rparr>
       \<and> (let patch = \<lparr>FeedId = Some (d_name (rd w)), Project = Some (d_project_id (rd w)),
                        PatchJson = Some [\<lparr>From = None, Op = Some Replace,
                                           Path = Some ''/isDeleted'', Value = IBool False\<rparr>]\<rparr>;
                w2 = w'\<lparr>calls := calls w' @ [RestoreDeletedFeed_call patch]\<rparr>
            in resourceFeedCreate m w =
                 (case RestoreDeletedFeed m (calls w') patch of
                    Some err \<Rightarrow> Return (Some (Errorf (''restoring feed. Name: '' @ d_name (rd w)
                                                        @ '', Error: '' @ Error err))) w2
                  | None \<Rightarrow> resourceFeedRead m w2)
              \<and> calls (world_of (resourceFeedCreate m w)) =
                  calls w' @ RestoreDeletedFeed_call patch #
                    (if RestoreDeletedFeed m (calls w') patch = None
                     then [GetFeed_call \<lparr>FeedId = Some (d_name (rd w)),
                                          Project = Some (d_project_id (rd w))\<rparr>]
                     else []))
       \<and> (\<forall>a. CreateFeed_call a \<notin> set (drop (length (calls w))
                                             (calls (world_of (resourceFeedCreate m w)))))"
proof -
  note w' = isFeedRestorable_world [OF restorable]
  have rd': "rd w' = rd w" by (simp add: w')
  let ?patch = "\<lparr>FeedId = Some (d_name (rd w)), Project = Some (d_project_id (rd w)),
                        PatchJson = Some [\<lparr>From = None, Op = Some Replace,
                                           Path = Some ''/isDeleted'', Value = IBool False\<rparr>]\<rparr>"
  let ?w2 = "w'\<lparr>calls := calls w' @ [RestoreDeletedFeed_call ?patch]\<rparr>"
  have create: "resourceFeedCreate m w =
                 (case RestoreDeletedFeed m (calls w') ?patch of
                    Some err \<Rightarrow> Return (Some (Errorf (''restoring feed. Name: '' @ d_name (rd w)
                                                        @ '', Error: '' @ Error err))) ?w2
                  | None \<Rightarrow> resourceFeedRead m ?w2)"
    using feats flag restorable
    by (simp add: resourceFeedCreate_def restoreFeed_eq rd' split: option.splits)
  have cs: "calls (world_of (resourceFeedCreate m w)) =
                  calls w' @ RestoreDeletedFeed_call ?patch #
                    (if RestoreDeletedFeed m (calls w') ?patch = None
                     then [GetFeed_call \<lparr>FeedId = Some (d_name (rd w)),
                                          Project = Some (d_project_id (rd w))\<rparr>]
                     else [])"
    unfolding create
    by (cases "RestoreDeletedFeed m (calls w') ?patch")
       (simp_all add: resourceFeedRead_calls rd')
  have never: "\<forall>a. CreateFeed_call a \<notin> set (drop (length (calls w))
                                             (calls (world_of (resourceFeedCreate m w))))"
    unfolding cs by (simp add: w')
  show ?thesis
    unfolding Let_def
    by (rule conjI [OF w' conjI [OF conjI [OF create cs] never]])
qed

theorem create_restores_instead_of_creating_witness:
  "isFeedRestorable (stub_env (Some (pkgs_feed None), None) (Some deleted_change, None)
                       None None None None)
     (pkgs_world '''' [features_block False True])
     = Return True ((pkgs_world '''' [features_block False True])
                      \<lparr>calls := [GetFeedChange_call pkgs_args]\<rparr>)
   \<and> resourceFeedCreate (stub_env (Some (pkgs_feed None), None) (Some deleted_change, None)
                          None None None None)
       (pkgs_world '''' [features_block False True])
     = resourceFeedRead (stub_env (Some (pkgs_feed None), None) (Some deleted_change, None)
                          None None None None)
         ((pkgs_world '''' [features_block False True])
            \<lparr>calls := [GetFeedChange_call pkgs_args, RestoreDeletedFeed_call pkgs_patch]\<rparr>)
   \<and> calls (world_of (resourceFeedCreate
               (stub_env (Some (pkgs_feed None), None) (Some deleted_change, None)
                  None None None None)
               (pkgs_world '''' [features_block False True])))
     = [GetFeedChange_call pkgs_args, RestoreDeletedFeed_call pkgs_patch,
        GetFeed_call pkgs_args]"
proof -
  let ?m = "stub_env (Some (pkgs_feed None), None) (Some deleted_change, None)
              None None None None"
  let ?w = "pkgs_world '''' [features_block False True]"
  let ?fm = "\<lambda>k. if k = ''permanent_delete'' then Some (IBool False)
                  else if k = ''restore'' then Some (IBool True) else None"
  have h1: "feedFeatures (rd ?w) = Some ?fm"
    by simp
  have h2: "?fm ''restore'' = Some (IBool True)"
    by simp
  have h3: "isFeedRestorable ?m ?w
              = Return True (?w\<lparr>calls := [GetFeedChange_call pkgs_args]\<rparr>)"
    by (simp add: isFeedRestorable_def converter_String_def deleted_change_def pkgs_args_def)
  show ?thesis
    using h3 create_restores_instead_of_creating [OF h1 h2 h3]
    by (simp add: Let_def pkgs_args_def pkgs_patch_def resourceFeedRead_calls)
qed

text \<open>
  Claim C2. When the \<^verbatim>\<open>features\<close> block is absent, or has no \<^verbatim>\<open>restore\<close> entry, or has
  it false, \<^verbatim>\<open>resourceFeedCreate\<close> calls \<^verbatim>\<open>CreateFeed\<close> first, with a feed that carries the
  name and nothing else and with the project id: the arguments are a function of name
  and project id alone, no flag enters them. A failure is returned as the error
  \<^verbatim>\<open>creating new feed ...\<close>; on success the result is that of \<^verbatim>\<open>resourceFeedRead\<close>. Neither
  \<^verbatim>\<open>GetFeedChange\<close> nor \<^verbatim>\<open>RestoreDeletedFeed\<close> is among the calls issued.
\<close>

theorem create_without_restore_calls_CreateFeed:
  assumes feats: "feedFeatures (rd w) = Some features"
    and flag: "features ''restore'' = None \<or> features ''restore'' = Some (IBool False)"
  shows "let args = \<lparr>CreateFeedArgs_Feed =
                       Some \<lparr>Feed_Id = None, Feed_Name = Some (d_name (rd w)),
                             Feed_Project = None\<rparr>,
                     CreateFeedArgs_Project = Some (d_project_id (rd w))\<rparr>;
             w2 = w\<lparr>calls := calls w @ [CreateFeed_call args]\<rparr>
         in resourceFeedCreate m w =
              (case snd (CreateFeed m (calls w) args) of
                 Some e \<Rightarrow> Return (Some (Errorf (''creating new feed. Name: '' @ d_name (rd w)
                                                   @ '', Error: '' @ Error e))) w2
               | None \<Rightarrow> resourceFeedRead m w2)
          \<and> calls (world_of (resourceFeedCreate m w)) =
              calls w @ CreateFeed_call args #
                (if snd (CreateFeed m (calls w) args) = None
                 then [GetFeed_call \<lparr>FeedId = Some (d_name (rd w)),
                                      Project = Some (d_project_id (rd w))\<rparr>]
                 else [])
          \<and> (\<forall>a. GetFeedChange_call a
                    \<notin> set (drop (length (calls w)) (calls (world_of (resourceFeedCreate m w)))))
          \<and> (\<forall>a. RestoreDeletedFeed_call a
                    \<notin> set (drop (length (calls w)) (calls (world_of (resourceFeedCreate m w)))))"
proof -
  let ?args = "\<lparr>CreateFeedArgs_Feed =
                       Some \<lparr>Feed_Id = None, Feed_Name = Some (d_name (rd w)),
                             Feed_Project = None\<rparr>,
                     CreateFeedArgs_Project = Some (d_project_id (rd w))\<rparr>"
  let ?w2 = "w\<lparr>calls := calls w @ [CreateFeed_call ?args]\<rparr>"
  have create: "resourceFeedCreate m w =
              (case snd (CreateFeed m (calls w) ?args) of
                 Some e \<Rightarrow> Return (Some (Errorf (''creating new feed. Name: '' @ d_name (rd w)
                                                   @ '', Error: '' @ Error e))) ?w2
               | None \<Rightarrow> resourceFeedRead m ?w2)"
    using feats flag
    by (auto simp: resourceFeedCreate_def Let_def split: prod.splits option.splits)
  have cs: "calls (world_of (resourceFeedCreate m w)) =
              calls w @ CreateFeed_call ?args #
                (if snd (CreateFeed m (calls w) ?args) = None
                 then [GetFeed_call \<lparr>FeedId = Some (d_name (rd w)),
                                      Project = Some (d_project_id (rd w))\<rparr>]
                 else [])"
    unfolding create
    by (cases "snd (CreateFeed m (calls w) ?args)") (simp_all add: resourceFeedRead_calls)
  have n1: "\<forall>a. GetFeedChange_call a
                    \<notin> set (drop (length (calls w)) (calls (world_of (resourceFeedCreate m w))))"
    unfolding cs by simp
  have n2: "\<forall>a. RestoreDeletedFeed_call a
                    \<notin> set (drop (length (calls w)) (calls (world_of (resourceFeedCreate m w))))"
    unfolding cs by simp
  show ?thesis
    unfolding Let_def
    by (rule conjI [OF create conjI [OF cs conjI [OF n1 n2]]])
qed

theorem create_without_restore_calls_CreateFeed_witness:
  "feedFeatures (rd (pkgs_world '''' [])) = Some (\<lambda>k. None)
   \<and> resourceFeedCreate (stub_env (Some (pkgs_feed None), None) (Some deleted_change, None)
                          None None None None)
       (pkgs_world '''' [])
     = resourceFeedRead (stub_env (Some (pkgs_feed None), None) (Some deleted_change, None)
                          None None None None)
         ((pkgs_world '''' [])
            \<lparr>calls := [CreateFeed_call
                          \<lparr>CreateFeedArgs_Feed =
                             Some \<lparr>Feed_Id = None, Feed_Name = Some ''pkgs'',
                                   Feed_Project = None\<rparr>,
                           CreateFeedArgs_Project = Some scope_id\<rparr>]\<rparr>)
   \<and> calls (world_of (resourceFeedCreate
               (stub_env (Some (pkgs_feed None), None) (Some deleted_change, None)
                  None None None None)
               (pkgs_world '''' [])))
     = [CreateFeed_call
          \<lparr>CreateFeedArgs_Feed =
             Some \<lparr>Feed_Id = None, Feed_Name = Some ''pkgs'', Feed_Project = None\<rparr>,
           CreateFeedArgs_Project = Some scope_id\<rparr>,
        GetFeed_call pkgs_args]
   \<and> calls (world_of (resourceFeedCreate
               (stub_env (Some (pkgs_feed None), None) (Some deleted_change, None)
                  None None None None)
               (pkgs_world '''' [features_block True False])))
     = [CreateFeed_call
          \<lparr>CreateFeedArgs_Feed =
             Some \<lparr>Feed_Id = None, Feed_Name = Some ''pkgs'', Feed_Project = None\<rparr>,
           CreateFeedArgs_Project = Some scope_id\<rparr>,
        GetFeed_call pkgs_args]"
proof -
  let ?m = "stub_env (Some (pkgs_feed None), None) (Some deleted_change, None)
              None None None None"
  let ?fm = "(\<lambda>k. None) :: string \<Rightarrow> iface option"
  let ?fm' = "\<lambda>k. if k = ''permanent_delete'' then Some (IBool True)
                   else if k = ''restore'' then Some (IBool False) else None"
  have h1: "feedFeatures (rd (pkgs_world '''' [])) = Some ?fm"
    by (simp add: feedFeatures_absent)
  have h2: "?fm ''restore'' = None \<or> ?fm ''restore'' = Some (IBool False)"
    by simp
  have k1: "feedFeatures (rd (pkgs_world '''' [features_block True False])) = Some ?fm'"
    by simp
  have k2: "?fm' ''restore'' = None \<or> ?fm' ''restore'' = Some (IBool False)"
    by simp
  show ?thesis
    using h1 create_without_restore_calls_CreateFeed [OF h1 h2, of ?m]
      create_without_restore_calls_CreateFeed [OF k1 k2, of ?m]
    by (simp add: Let_def pkgs_args_def resourceFeedRead_calls)
qed

subsection \<open>Delete\<close>

text \<open>
  Claim C3. \<^verbatim>\<open>resourceFeedDelete\<close> always issues \<^verbatim>\<open>DeleteFeed\<close>, once and first. With
  \<^verbatim>\<open>permanent_delete\<close> false (or missing) that is the only call. With it true,
  \<^verbatim>\<open>PermanentDeleteFeed\<close> follows, with the same identifiers, exactly when the soft delete
  succeeded; after a failed soft delete nothing more is sent.
\<close>

theorem delete_call_sequence:
  assumes feats: "feedFeatures (rd w) = Some features"
    and flag: "features ''permanent_delete'' = Some (IBool permanentDelete)
               \<or> (features ''permanent_delete'' = None \<and> \<not> permanentDelete)"
  shows "let args = \<lparr>FeedId = Some (d_name (rd w)), Project = Some (d_project_id (rd w))\<rparr>
         in calls (world_of (resourceFeedDelete m w)) =
              calls w @ DeleteFeed_call args #
                (if permanentDelete \<and> DeleteFeed m (calls w) args = None
                 then [PermanentDeleteFeed_call args]
                 else [])"
  using feats flag
  by (auto simp: resourceFeedDelete_def Let_def split: option.splits)

theorem delete_call_sequence_witness:
  "feedFeatures (rd (pkgs_world feed_id [features_block True False]))
     = Some (\<lambda>k. if k = ''permanent_delete'' then Some (IBool True)
                  else if k = ''restore'' then Some (IBool False) else None)
   \<and> calls (world_of (resourceFeedDelete
                (stub_env (None, None) (None, None) None None None None)
                (pkgs_world feed_id [features_block True False])))
      = [DeleteFeed_call pkgs_args, PermanentDeleteFeed_call pkgs_args]
   \<and> calls (world_of (resourceFeedDelete
                (stub_env (None, None) (None, None) None
                   (Some (RemoteError 500 ''boom'')) None None)
                (pkgs_world feed_id [features_block True False])))
      = [DeleteFeed_call pkgs_args]"
proof -
  let ?fm = "\<lambda>k. if k = ''permanent_delete'' then Some (IBool True)
                  else if k = ''restore'' then Some (IBool False) else None"
  have h1: "feedFeatures (rd (pkgs_world feed_id [features_block True False])) = Some ?fm"
    by simp
  have h2: "?fm ''permanent_delete'' = Some (IBool True)
            \<or> (?fm ''permanent_delete'' = None \<and> \<not> True)"
    by simp
  show ?thesis
    using h1
      delete_call_sequence [OF h1 h2,
        of "stub_env (None, None) (None, None) None None None None"]
      delete_call_sequence [OF h1 h2,
        of "stub_env (None, None) (None, None) None (Some (RemoteError 500 ''boom'')) None None"]
    by (simp add: Let_def pkgs_args_def)
qed

text \<open>
  Claim C7. Let \<open>soft\<close> and \<open>purge\<close> be the answers of \<^verbatim>\<open>DeleteFeed\<close> and
  \<^verbatim>\<open>PermanentDeleteFeed\<close>. \<^verbatim>\<open>resourceFeedDelete\<close> returns the first error among the calls it
  issues, as the remote side gave it, and nil when there is none, which is exactly when
  the soft delete succeeded and the permanent delete was not asked for or succeeded too.
  The identifier is set to the empty string in that case and only then: with an error
  returned the resource data is what it was.
\<close>

theorem delete_clears_id_iff_all_calls_succeed:
  assumes feats: "feedFeatures (rd w) = Some features"
    and flag: "features ''permanent_delete'' = Some (IBool permanentDelete)
               \<or> (features ''permanent_delete'' = None \<and> \<not> permanentDelete)"
  shows "let args = \<lparr>FeedId = Some (d_name (rd w)), Project = Some (d_project_id (rd w))\<rparr>;
             soft = DeleteFeed m (calls w) args;
             purge = PermanentDeleteFeed m (calls w @ [DeleteFeed_call args]) args;
             err = (if soft \<noteq> None then soft else if permanentDelete then purge else None)
         in resourceFeedDelete m w =
              Return err
                \<lparr>rd = (if err = None then (rd w)\<lparr>d_Id := ''''\<rparr> else rd w),
                 calls = calls w @ DeleteFeed_call args #
                           (if permanentDelete \<and> soft = None
                            then [PermanentDeleteFeed_call args]
                            else [])\<rparr>
          \<and> (err = None) = (soft = None \<and> (\<not> permanentDelete \<or> purge = None))"
  using feats flag
  by (cases w) (auto simp: resourceFeedDelete_def SetId_def Let_def split: option.splits)

theorem delete_clears_id_iff_all_calls_succeed_witness:
  "feedFeatures (rd (pkgs_world feed_id [features_block True False]))
     = Some (\<lambda>k. if k = ''permanent_delete'' then Some (IBool True)
                  else if k = ''restore'' then Some (IBool False) else None)
   \<and> resourceFeedDelete
        (stub_env (None, None) (None, None) None None (Some (RemoteError 500 ''boom'')) None)
        (pkgs_world feed_id [features_block True False])
      = Return (Some (RemoteError 500 ''boom''))
          \<lparr>rd = pkgs_data feed_id [features_block True False],
           calls = [DeleteFeed_call pkgs_args, PermanentDeleteFeed_call pkgs_args]\<rparr>
   \<and> resourceFeedDelete
        (stub_env (None, None) (None, None) None None None None)
        (pkgs_world feed_id [features_block True False])
      = Return None
          \<lparr>rd = pkgs_data '''' [features_block True False],
           calls = [DeleteFeed_call pkgs_args, PermanentDeleteFeed_call pkgs_args]\<rparr>"
proof -
  let ?fm = "\<lambda>k. if k = ''permanent_delete'' then Some (IBool True)
                  else if k = ''restore'' then Some (IBool False) else None"
  have h1: "feedFeatures (rd (pkgs_world feed_id [features_block True False])) = Some ?fm"
    by simp
  have h2: "?fm ''permanent_delete'' = Some (IBool True)
            \<or> (?fm ''permanent_delete'' = None \<and> \<not> True)"
    by simp
  show ?thesis
    using h1
      delete_clears_id_iff_all_calls_succeed [OF h1 h2,
        of "stub_env (None, None) (None, None) None None (Some (RemoteError 500 ''boom'')) None"]
      delete_clears_id_iff_all_calls_succeed [OF h1 h2,
        of "stub_env (None, None) (None, None) None None None None"]
    by (simp add: Let_def pkgs_args_def pkgs_data_def)
qed

subsection \<open>Read\<close>

text \<open>
  Claim C4. When \<^verbatim>\<open>GetFeed\<close> answers with an error \<open>e\<close>: if
  \<^verbatim>\<open>utils.ResponseWasNotFound\<close> holds of \<open>e\<close>, \<^verbatim>\<open>resourceFeedRead\<close> sets the identifier to
  the empty string, changes nothing else and returns nil; otherwise it returns the error
  \<^verbatim>\<open> reading feed during read: ...\<close>, whose text ends with the text of \<open>e\<close>, and leaves
  the resource data alone.
\<close>

theorem read_failure:
  assumes failed: "GetFeed m (calls w) \<lparr>FeedId = Some (d_name (rd w)),
                                         Project = Some (d_project_id (rd w))\<rparr> = (r, Some e)"
  shows "let w1 = w\<lparr>calls := calls w @ [GetFeed_call \<lparr>FeedId = Some (d_name (rd w)),
                                              Project = Some (d_project_id (rd w))\<rparr>]\<rparr>
         in resourceFeedRead m w =
              (if ResponseWasNotFound m e
               then Return None (w1\<lparr>rd := (rd w)\<lparr>d_Id := ''''\<rparr>\<rparr>)
               else Return (Some (Errorf ('' reading feed during read: '' @ Error e))) w1)"
  using failed by (simp add: resourceFeedRead_def SetId_def Let_def)

theorem read_failure_witness:
  "resourceFeedRead
     (stub_env (None, Some (RemoteError 404 ''gone'')) (None, None) None None None None)
     (pkgs_world feed_id [])
     = Return None \<lparr>rd = pkgs_data '''' [], calls = [GetFeed_call pkgs_args]\<rparr>
   \<and> resourceFeedRead
       (stub_env (None, Some (RemoteError 500 ''boom'')) (None, None) None None None None)
       (pkgs_world feed_id [])
     = Return (Some (Errorf '' reading feed during read: boom''))
         \<lparr>rd = pkgs_data feed_id [], calls = [GetFeed_call pkgs_args]\<rparr>"
proof -
  have h1: "GetFeed (stub_env (None, Some (RemoteError 404 ''gone'')) (None, None)
                       None None None None)
              (calls (pkgs_world feed_id []))
              \<lparr>FeedId = Some (d_name (rd (pkgs_world feed_id []))),
               Project = Some (d_project_id (rd (pkgs_world feed_id [])))\<rparr>
            = (None, Some (RemoteError 404 ''gone''))"
    by simp
  have h2: "GetFeed (stub_env (None, Some (RemoteError 500 ''boom'')) (None, None)
                       None None None None)
              (calls (pkgs_world feed_id []))
              \<lparr>FeedId = Some (d_name (rd (pkgs_world feed_id []))),
               Project = Some (d_project_id (rd (pkgs_world feed_id [])))\<rparr>
            = (None, Some (RemoteError 500 ''boom''))"
    by simp
  show ?thesis
    using read_failure [OF h1] read_failure [OF h2]
    by (simp add: Let_def pkgs_args_def pkgs_data_def pkgs_world_def)
qed

text \<open>
  Claim C5, as stated, does not hold for the name: line 108 hands the response's name
  pointer to \<^verbatim>\<open>d.Set\<close> whether or not it is nil; only \<^verbatim>\<open>project_id\<close> is guarded. With the
  resource named \<^verbatim>\<open>pkgs\<close> and a successful response that has an identifier but no name,
  \<^verbatim>\<open>resourceFeedRead\<close> does not leave the name alone: it becomes the empty string.
\<close>

theorem read_nameless_response_counterexample:
  "GetFeed (stub_env (Some nameless_feed, None) (None, None) None None None None)
     (calls (pkgs_world '''' [])) pkgs_args
     = (Some nameless_feed, None)
   \<and> Feed_Name nameless_feed = None
   \<and> d_name (rd (pkgs_world '''' [])) = ''pkgs''
   \<and> resourceFeedRead
       (stub_env (Some nameless_feed, None) (None, None) None None None None)
       (pkgs_world '''' [])
     = Return None
         \<lparr>rd = \<lparr>d_Id = feed_id, d_name = '''', d_project_id = scope_id,
                 d_features = []\<rparr>,
          calls = [GetFeed_call pkgs_args]\<rparr>
   \<and> d_name (rd (world_of (resourceFeedRead
          (stub_env (Some nameless_feed, None) (None, None) None None None None)
          (pkgs_world '''' []))))
     \<noteq> d_name (rd (pkgs_world '''' []))"
  by (simp add: resourceFeedRead_def SetId_def Set_name_def nameless_feed_def
        pkgs_args_def pkgs_world_def pkgs_data_def Let_def)

text \<open>
  Claim C5, amended. Let \<^verbatim>\<open>GetFeed\<close> answer without an error. \<^verbatim>\<open>resourceFeedRead\<close> then
  \<^item> changes nothing and returns nil when the response is nil;
  \<^item> panics, before anything is set, when the response has no identifier;
  \<^item> otherwise sets the identifier of the resource to the text of the response's
    identifier and calls the setter of \<^verbatim>\<open>name\<close> unconditionally: \<^verbatim>\<open>name\<close> becomes the
    response's name when there is one and the empty string when there is none;
  \<^item> then, when the response has no project, leaves \<^verbatim>\<open>project_id\<close> as it was and returns
    nil; when it has a project, sets \<^verbatim>\<open>project_id\<close> to the text of the project's
    identifier and returns nil, or panics when the project has no identifier.

  \<^verbatim>\<open>features\<close> is never touched, and the one call issued is \<^verbatim>\<open>GetFeed\<close> with the feed
  addressed by name and project id.
\<close>

theorem read_success_sets_state:
  assumes ok: "GetFeed m (calls w) \<lparr>FeedId = Some (d_name (rd w)),
                                     Project = Some (d_project_id (rd w))\<rparr> = (r, None)"
  shows "let w1 = w\<lparr>calls := calls w @ [GetFeed_call \<lparr>FeedId = Some (d_name (rd w)),
                                              Project = Some (d_project_id (rd w))\<rparr>]\<rparr>
         in resourceFeedRead m w =
              (case r of
                 None \<Rightarrow> Return None w1
               | Some f \<Rightarrow>
                   (case Feed_Id f of
                      None \<Rightarrow> Panic w1
                    | Some u \<Rightarrow>
                        (let named = (rd w)\<lparr>d_Id := uuid_String u,
                                           d_name := (case Feed_Name f of
                                                        Some n \<Rightarrow> n
                                                      | None \<Rightarrow> '''')\<rparr>
                         in (case Feed_Project f of
                               None \<Rightarrow> Return None (w1\<lparr>rd := named\<rparr>)
                             | Some p \<Rightarrow>
                                 (case ProjectReference_Id p of
                                    None \<Rightarrow> Panic (w1\<lparr>rd := named\<rparr>)
                                  | Some pu \<Rightarrow>
                                      Return None
                                        (w1\<lparr>rd := named\<lparr>d_project_id :=
                                                            uuid_String pu\<rparr>\<rparr>))))))"
  using ok
  by (simp add: resourceFeedRead_def SetId_def Set_name_def Set_project_id_def Let_def
           split: option.splits)

theorem read_success_sets_state_witness:
  "resourceFeedRead
     (stub_env (Some nameless_feed, None) (None, None) None None None None)
     (pkgs_world '''' [features_block True True])
     = Return None
         \<lparr>rd = \<lparr>d_Id = feed_id, d_name = '''', d_project_id = scope_id,
                 d_features = [features_block True True]\<rparr>,
          calls = [GetFeed_call pkgs_args]\<rparr>
   \<and> resourceFeedRead
       (stub_env (Some renamed_feed, None) (None, None) None None None None)
       (pkgs_world '''' [])
     = Return None
         \<lparr>rd = \<lparr>d_Id = feed_id, d_name = ''packages'', d_project_id = ''p-2'',
                 d_features = []\<rparr>,
          calls = [GetFeed_call pkgs_args]\<rparr>
   \<and> resourceFeedRead
       (stub_env (None, None) (None, None) None None None None)
       (pkgs_world feed_id [])
     = Return None \<lparr>rd = pkgs_data feed_id [], calls = [GetFeed_call pkgs_args]\<rparr>
   \<and> resourceFeedRead
       (stub_env (Some (nameless_feed\<lparr>Feed_Id := None\<rparr>), None) (None, None)
          None None None None)
       (pkgs_world '''' [])
     = Panic \<lparr>rd = pkgs_data '''' [], calls = [GetFeed_call pkgs_args]\<rparr>
   \<and> resourceFeedRead
       (stub_env (Some (renamed_feed\<lparr>Feed_Project := Some \<lparr>ProjectReference_Id = None\<rparr>\<rparr>),
                  None) (None, None) None None None None)
       (pkgs_world '''' [])
     = Panic \<lparr>rd = \<lparr>d_Id = feed_id, d_name = ''packages'', d_project_id = scope_id,
                     d_features = []\<rparr>,
              calls = [GetFeed_call pkgs_args]\<rparr>"
proof -
  let ?w = "pkgs_world '''' []"
  let ?args = "\<lambda>w. \<lparr>FeedId = Some (d_name (rd w)), Project = Some (d_project_id (rd w))\<rparr>"
  let ?m1 = "stub_env (Some nameless_feed, None) (None, None) None None None None"
  let ?w1 = "pkgs_world '''' [features_block True True]"
  let ?m2 = "stub_env (Some renamed_feed, None) (None, None) None None None None"
  let ?m3 = "stub_env (None, None) (None, None) None None None None"
  let ?w3 = "pkgs_world feed_id []"
  let ?f4 = "nameless_feed\<lparr>Feed_Id := None\<rparr>"
  let ?m4 = "stub_env (Some ?f4, None) (None, None) None None None None"
  let ?f5 = "renamed_feed\<lparr>Feed_Project := Some \<lparr>ProjectReference_Id = None\<rparr>\<rparr>"
  let ?m5 = "stub_env (Some ?f5, None) (None, None) None None None None"
  have h1: "GetFeed ?m1 (calls ?w1) (?args ?w1) = (Some nameless_feed, None)"
    by simp
  have h2: "GetFeed ?m2 (calls ?w) (?args ?w) = (Some renamed_feed, None)"
    by simp
  have h3: "GetFeed ?m3 (calls ?w3) (?args ?w3) = (None, None)"
    by simp
  have h4: "GetFeed ?m4 (calls ?w) (?args ?w) = (Some ?f4, None)"
    by simp
  have h5: "GetFeed ?m5 (calls ?w) (?args ?w) = (Some ?f5, None)"
    by simp
  show ?thesis
    using read_success_sets_state [OF h1] read_success_sets_state [OF h2]
      read_success_sets_state [OF h3] read_success_sets_state [OF h4]
      read_success_sets_state [OF h5]
    by (simp add: Let_def pkgs_args_def pkgs_world_def pkgs_data_def
          nameless_feed_def renamed_feed_def)
qed

subsection \<open>Update\<close>

text \<open>
  Claim C9. \<^verbatim>\<open>resourceFeedUpdate\<close> calls \<^verbatim>\<open>UpdateFeed\<close> with the feed addressed by name and
  project id and an update in which no field is set. An error comes back as it is, the
  very value the remote side returned, with the resource data untouched; without an
  error the result is that of \<^verbatim>\<open>resourceFeedRead\<close>.
\<close>

theorem update_sends_empty_payload:
  "let args = \<lparr>FeedId = Some (d_name (rd w)), Project = Some (d_project_id (rd w)),
               Feed = Some \<lparr>FeedUpdate_fields = []\<rparr>\<rparr>;
       w1 = w\<lparr>calls := calls w @ [UpdateFeed_call args]\<rparr>
   in resourceFeedUpdate m w =
        (case snd (UpdateFeed m (calls w) args) of
           Some e \<Rightarrow> Return (Some e) w1
         | None \<Rightarrow> resourceFeedRead m w1)
    \<and> calls (world_of (resourceFeedUpdate m w)) =
        calls w @ UpdateFeed_call args #
          (if snd (UpdateFeed m (calls w) args) = None
           then [GetFeed_call \<lparr>FeedId = Some (d_name (rd w)),
                                Project = Some (d_project_id (rd w))\<rparr>]
           else [])"
  by (auto simp: resourceFeedUpdate_def resourceFeedRead_calls Let_def
           split: prod.splits option.splits)

theorem update_sends_empty_payload_witness:
  "resourceFeedUpdate
     (stub_env (None, None) (None, None) (Some (RemoteError 409 ''conflict'')) None None None)
     (pkgs_world feed_id [])
     = Return (Some (RemoteError 409 ''conflict''))
         ((pkgs_world feed_id [])
            \<lparr>calls := [UpdateFeed_call
                          \<lparr>FeedId = Some ''pkgs'', Project = Some scope_id,
                           Feed = Some \<lparr>FeedUpdate_fields = []\<rparr>\<rparr>]\<rparr>)"
  using update_sends_empty_payload
    [of "pkgs_world feed_id []"
        "stub_env (None, None) (None, None) (Some (RemoteError 409 ''conflict''))
           None None None"]
  by (simp add: Let_def)

subsection \<open>Restorability\<close>

text \<open>
  Claim C8. The result of \<^verbatim>\<open>isFeedRestorable\<close> has no error component: it is a bool (or
  a panic, see C10). It is true exactly when \<^verbatim>\<open>GetFeedChange\<close> answers without an error
  and with a change whose type is \<^verbatim>\<open>feed.ChangeTypeValues.Delete\<close>; it is false, with no
  error and no panic, whenever \<^verbatim>\<open>GetFeedChange\<close> answers with an error.
\<close>

theorem isFeedRestorable_true_iff:
  "let args = \<lparr>FeedId = Some (d_name (rd w)), Project = Some (d_project_id (rd w))\<rparr>;
       w1 = w\<lparr>calls := calls w @ [GetFeedChange_call args]\<rparr>
   in (isFeedRestorable m w = Return True w1
         \<longleftrightarrow> (\<exists>ch. GetFeedChange m (calls w) args = (Some ch, None)
                   \<and> ChangeType ch = Some ChangeTypeValues_Delete))
    \<and> (\<forall>r e. GetFeedChange m (calls w) args = (r, Some e)
              \<longrightarrow> isFeedRestorable m w = Return False w1)"
  by (auto simp: isFeedRestorable_def converter_String_def Let_def
           split: prod.splits option.splits)

theorem isFeedRestorable_true_iff_witness:
  "isFeedRestorable
     (stub_env (None, None) (Some deleted_change, None) None None None None)
     (pkgs_world '''' [])
     = Return True ((pkgs_world '''' [])\<lparr>calls := [GetFeedChange_call pkgs_args]\<rparr>)
   \<and> isFeedRestorable
       (stub_env (None, None) (Some deleted_change, Some (RemoteError 503 ''busy''))
          None None None None)
       (pkgs_world '''' [])
     = Return False ((pkgs_world '''' [])\<lparr>calls := [GetFeedChange_call pkgs_args]\<rparr>)"
  using
    isFeedRestorable_true_iff
      [of "pkgs_world '''' []"
          "stub_env (None, None) (Some deleted_change, None) None None None None"]
    isFeedRestorable_true_iff
      [of "pkgs_world '''' []"
          "stub_env (None, None) (Some deleted_change, Some (RemoteError 503 ''busy''))
             None None None None"]
  by (simp add: Let_def pkgs_args_def deleted_change_def)

text \<open>
  Claim C10. \<^verbatim>\<open>isFeedRestorable\<close> panics exactly when \<^verbatim>\<open>GetFeedChange\<close> answers without
  an error and either the change record is nil or its \<^verbatim>\<open>ChangeType\<close> is nil: the
  dereferences of line 176 are unguarded, so such an answer does not give false. With a
  change record and a change type in every error-free answer the function always returns.
\<close>

theorem isFeedRestorable_panics_iff:
  "is_Panic (isFeedRestorable m w)
     \<longleftrightarrow> (\<exists>change. GetFeedChange m (calls w)
                       \<lparr>FeedId = Some (d_name (rd w)),
                        Project = Some (d_project_id (rd w))\<rparr> = (change, None)
                  \<and> (case change of None \<Rightarrow> True | Some ch \<Rightarrow> ChangeType ch = None))"
  by (auto simp: isFeedRestorable_def converter_String_def Let_def
           split: prod.splits option.splits)

theorem isFeedRestorable_panics_iff_witness:
  "is_Panic (isFeedRestorable
               (stub_env (None, None) (None, None) None None None None)
               (pkgs_world '''' []))
   \<and> is_Panic (isFeedRestorable
               (stub_env (None, None) (Some \<lparr>ChangeType = None\<rparr>, None) None None None None)
               (pkgs_world '''' []))
   \<and> \<not> is_Panic (isFeedRestorable
               (stub_env (None, None) (Some deleted_change, None) None None None None)
               (pkgs_world '''' []))"
  using
    isFeedRestorable_panics_iff
      [of "stub_env (None, None) (None, None) None None None None" "pkgs_world '''' []"]
    isFeedRestorable_panics_iff
      [of "stub_env (None, None) (Some \<lparr>ChangeType = None\<rparr>, None) None None None None"
          "pkgs_world '''' []"]
    isFeedRestorable_panics_iff
      [of "stub_env (None, None) (Some deleted_change, None) None None None None"
          "pkgs_world '''' []"]
  by (simp add: deleted_change_def)

subsection \<open>A failed restore\<close>

text \<open>
  Claim C6, as stated, does not hold: \<^verbatim>\<open>restoreFeed\<close> hands the remote error back as it
  is, but \<^verbatim>\<open>resourceFeedCreate\<close> does not pass it on. With a remote side that reports the
  feed as deleted and then fails the restore request with the error \<^verbatim>\<open>boom\<close>, the caller
  of \<^verbatim>\<open>resourceFeedCreate\<close> gets a different error, built by \<^verbatim>\<open>fmt.Errorf\<close>.
\<close>

theorem create_restore_error_counterexample:
  "isFeedRestorable
     (stub_env (None, None) (Some deleted_change, None) None None None
        (Some (RemoteError 500 ''boom'')))
     (pkgs_world '''' [features_block False True])
     = Return True ((pkgs_world '''' [features_block False True])
                      \<lparr>calls := [GetFeedChange_call pkgs_args]\<rparr>)
   \<and> RestoreDeletedFeed
       (stub_env (None, None) (Some deleted_change, None) None None None
          (Some (RemoteError 500 ''boom'')))
       [GetFeedChange_call pkgs_args] pkgs_patch
     = Some (RemoteError 500 ''boom'')
   \<and> resourceFeedCreate
       (stub_env (None, None) (Some deleted_change, None) None None None
          (Some (RemoteError 500 ''boom'')))
       (pkgs_world '''' [features_block False True])
     = Return (Some (Errorf ''restoring feed. Name: pkgs, Error: boom''))
         ((pkgs_world '''' [features_block False True])
            \<lparr>calls := [GetFeedChange_call pkgs_args, RestoreDeletedFeed_call pkgs_patch]\<rparr>)
   \<and> resourceFeedCreate
       (stub_env (None, None) (Some deleted_change, None) None None None
          (Some (RemoteError 500 ''boom'')))
       (pkgs_world '''' [features_block False True])
     \<noteq> Return (Some (RemoteError 500 ''boom''))
         ((pkgs_world '''' [features_block False True])
            \<lparr>calls := [GetFeedChange_call pkgs_args, RestoreDeletedFeed_call pkgs_patch]\<rparr>)"
  by (simp add: resourceFeedCreate_def isFeedRestorable_def restoreFeed_def
        converter_String_def deleted_change_def pkgs_args_def pkgs_patch_def Let_def)

text \<open>
  Claim C6, amended. In the restore branch, when the restore request fails with the
  error \<open>e\<close>, \<^verbatim>\<open>restoreFeed\<close> returns \<open>e\<close> itself, and \<^verbatim>\<open>resourceFeedCreate\<close> returns a new
  error whose text is \<^verbatim>\<open>restoring feed. Name: \<close> followed by the name, \<^verbatim>\<open>, Error: \<close> and
  the text of \<open>e\<close>. No read follows.
\<close>

theorem create_wraps_restore_error:
  assumes feats: "feedFeatures (rd w) = Some features"
    and flag: "features ''restore'' = Some (IBool True)"
    and restorable: "isFeedRestorable m w = Return True w'"
    and failed: "RestoreDeletedFeed m (calls w')
                   \<lparr>FeedId = Some (d_name (rd w)), Project = Some (d_project_id (rd w)),
                    PatchJson = Some [\<lparr>From = None, Op = Some Replace,
                                       Path = Some ''/isDeleted'', Value = IBool False\<rparr>]\<rparr>
                 = Some e"
  shows "let w2 = w'\<lparr>calls := calls w' @ [RestoreDeletedFeed_call
                     \<lparr>FeedId = Some (d_name (rd w)), Project = Some (d_project_id (rd w)),
                      PatchJson = Some [\<lparr>From = None, Op = Some Replace,
                                         Path = Some ''/isDeleted'',
                                         Value = IBool False\<rparr>]\<rparr>]\<rparr>
         in restoreFeed m w' = Return (Some e) w2
          \<and> resourceFeedCreate m w =
              Return (Some (Errorf (''restoring feed. Name: '' @ d_name (rd w)
                                     @ '', Error: '' @ Error e))) w2"
proof -
  note w' = isFeedRestorable_world [OF restorable]
  have rd': "rd w' = rd w" by (simp add: w')
  have restore: "restoreFeed m w' = Return (Some e)
                   (w'\<lparr>calls := calls w' @ [RestoreDeletedFeed_call
                     \<lparr>FeedId = Some (d_name (rd w)), Project = Some (d_project_id (rd w)),
                      PatchJson = Some [\<lparr>From = None, Op = Some Replace,
                                         Path = Some ''/isDeleted'',
                                         Value = IBool False\<rparr>]\<rparr>]\<rparr>)"
    using failed by (simp add: restoreFeed_eq rd')
  have create: "resourceFeedCreate m w =
              Return (Some (Errorf (''restoring feed. Name: '' @ d_name (rd w)
                                     @ '', Error: '' @ Error e)))
                   (w'\<lparr>calls := calls w' @ [RestoreDeletedFeed_call
                     \<lparr>FeedId = Some (d_name (rd w)), Project = Some (d_project_id (rd w)),
                      PatchJson = Some [\<lparr>From = None, Op = Some Replace,
                                         Path = Some ''/isDeleted'',
                                         Value = IBool False\<rparr>]\<rparr>]\<rparr>)"
    using feats flag restorable
    by (simp add: resourceFeedCreate_def restore)
  show ?thesis
    unfolding Let_def by (rule conjI [OF restore create])
qed

theorem create_wraps_restore_error_witness:
  "restoreFeed
     (stub_env (None, None) (Some deleted_change, None) None None None
        (Some (RemoteError 403 ''denied'')))
     ((pkgs_world '''' [features_block True True])
        \<lparr>calls := [GetFeedChange_call pkgs_args]\<rparr>)
     = Return (Some (RemoteError 403 ''denied''))
         ((pkgs_world '''' [features_block True True])
            \<lparr>calls := [GetFeedChange_call pkgs_args, RestoreDeletedFeed_call pkgs_patch]\<rparr>)
   \<and> resourceFeedCreate
       (stub_env (None, None) (Some deleted_change, None) None None None
          (Some (RemoteError 403 ''denied'')))
       (pkgs_world '''' [features_block True True])
     = Return (Some (Errorf ''restoring feed. Name: pkgs, Error: denied''))
         ((pkgs_world '''' [features_block True True])
            \<lparr>calls := [GetFeedChange_call pkgs_args, RestoreDeletedFeed_call pkgs_patch]\<rparr>)"
proof -
  let ?m = "stub_env (None, None) (Some deleted_change, None) None None None
              (Some (RemoteError 403 ''denied''))"
  let ?w = "pkgs_world '''' [features_block True True]"
  let ?w' = "?w\<lparr>calls := [GetFeedChange_call pkgs_args]\<rparr>"
  let ?fm = "\<lambda>k. if k = ''permanent_delete'' then Some (IBool True)
                  else if k = ''restore'' then Some (IBool True) else None"
  have h1: "feedFeatures (rd ?w) = Some ?fm"
    by simp
  have h2: "?fm ''restore'' = Some (IBool True)"
    by simp
  have h3: "isFeedRestorable ?m ?w = Return True ?w'"
    by (simp add: isFeedRestorable_def converter_String_def deleted_change_def pkgs_args_def)
  have h4: "RestoreDeletedFeed ?m (calls ?w')
              \<lparr>FeedId = Some (d_name (rd ?w)), Project = Some (d_project_id (rd ?w)),
               PatchJson = Some [\<lparr>From = None, Op = Some Replace,
                                  Path = Some ''/isDeleted'', Value = IBool False\<rparr>]\<rparr>
            = Some (RemoteError 403 ''denied'')"
    by simp
  show ?thesis
    using create_wraps_restore_error [OF h1 h2 h3 h4]
    by (simp add: Let_def pkgs_args_def pkgs_patch_def)
qed

end
